theory Spec2Isabelle
  imports Complex_Main
begin

section \<open>Python strings\<close>

text \<open>
  The program works on Python \<open>str\<close> values. They are modelled as \<^typ>\<open>string\<close>, one
  \<^typ>\<open>char\<close> per character, and the character classes and case mappings below are
  those of Python on ASCII: a character outside ASCII is neither cased, alphanumeric
  nor white space here.
\<close>

definition isspace :: "char \<Rightarrow> bool" where
  \<comment> \<open>\<open>str.isspace\<close> of one character: TAB, LF, VT, FF, CR, FS, GS, RS, US and the space.\<close>
  "isspace c = (let n = (of_char c :: nat) in (9 \<le> n \<and> n \<le> 13) \<or> (28 \<le> n \<and> n \<le> 32))"

definition isupper_char :: "char \<Rightarrow> bool" where
  "isupper_char c = (let n = (of_char c :: nat) in 65 \<le> n \<and> n \<le> 90)"

definition islower_char :: "char \<Rightarrow> bool" where
  "islower_char c = (let n = (of_char c :: nat) in 97 \<le> n \<and> n \<le> 122)"



definition lower_char :: "char \<Rightarrow> char" where
  "lower_char c = (if isupper_char c then char_of (of_char c + (32::nat)) else c)"

definition upper_char :: "char \<Rightarrow> char" where
  "upper_char c = (if islower_char c then char_of (of_char c - (32::nat)) else c)"

definition lower :: "string \<Rightarrow> string" where
  \<comment> \<open>\<open>str.lower\<close>\<close>
  "lower s = map lower_char s"

definition upper :: "string \<Rightarrow> string" where
  \<comment> \<open>\<open>str.upper\<close>\<close>
  "upper s = map upper_char s"


definition strip :: "string \<Rightarrow> string" where
  \<comment> \<open>\<open>str.strip\<close> with no argument\<close>
  "strip s = rev (dropWhile isspace (rev (dropWhile isspace s)))"




datatype error = KeyError | ValueError | AttributeError

function split_acc :: "string \<Rightarrow> string \<Rightarrow> string \<Rightarrow> string list" where
  "split_acc sep cur s =
     (if s = [] then [cur]
      else if sep \<noteq> [] \<and> take (length sep) s = sep
        then cur # split_acc sep [] (drop (length sep) s)
      else split_acc sep (cur @ [hd s]) (tl s))"
  by pat_completeness auto
termination
  by (relation "measure (\<lambda>(sep, cur, s). length s)") auto

definition split :: "string \<Rightarrow> string \<Rightarrow> error + string list" where
  \<comment> \<open>\<open>s.split(sep)\<close>: the pieces between the occurrences of \<open>sep\<close>, found from the left
      without overlap; an empty separator raises ValueError.\<close>
  "split s sep = (if sep = [] then Inl ValueError else Inr (split_acc sep [] s))"

section \<open>Records and the relevance comparator (base.py)\<close>

type_synonym RecordT = "string option \<times> string option \<times> real option"

definition NOT_FOUND :: RecordT where
  "NOT_FOUND = (None, None, None)"

definition FeatureClass_C :: string where
  \<comment> \<open>\<open>FeatureClass.C\<close>, the class of countries\<close>
  "FeatureClass_C = ''C''"

definition RELEVANCE_HIERARCHY :: "string \<rightharpoonup> int" where
  \<comment> \<open>\<open>FeatureClass.RELEVANCE_HIERARCHY\<close>\<close>
  "RELEVANCE_HIERARCHY = map_of
     [(FeatureClass_C, 0), (''A'', 1), (''P'', 1), (''T'', 2), (''R'', 3),
      (''H'', 4), (''S'', 5), (''L'', 6), (''V'', 7), (''U'', 8)]"

definition getitem :: "(string \<rightharpoonup> int) \<Rightarrow> string option \<Rightarrow> error + int" where
  \<comment> \<open>\<open>hierarchy[feature_class]\<close>: a key that is None or not in the dict raises KeyError.\<close>
  "getitem hierarchy feature_class =
     (case feature_class of None \<Rightarrow> Inl KeyError
      | Some c \<Rightarrow> (case hierarchy c of None \<Rightarrow> Inl KeyError | Some rank \<Rightarrow> Inr rank))"

definition population_or_0 :: "RecordT \<Rightarrow> real" where
  \<comment> \<open>the key \<open>lambda record: record[2] or 0\<close>\<close>
  "population_or_0 record = (case snd (snd record) of None \<Rightarrow> 0 | Some p \<Rightarrow> p)"

text \<open>
  Python passes and returns references to tuples. \<open>relevance_choice_ref\<close> is the body
  of \<open>relevance_choice\<close> on references of any type \<open>'o\<close>, with \<open>val\<close> reading the
  tuple behind a reference: it reads the operands through \<open>val\<close> only and returns one
  of the references it was given. \<open>max\<close> and \<open>min\<close> with a key return the first of
  their arguments on equal keys.
\<close>

definition relevance_choice_ref ::
  "('o \<Rightarrow> RecordT) \<Rightarrow> 'o \<Rightarrow> 'o \<Rightarrow> (string \<rightharpoonup> int) option \<Rightarrow> error + 'o" where
  "relevance_choice_ref val record_1 record_2 hierarchy =
     (let hierarchy = (case hierarchy of None \<Rightarrow> RELEVANCE_HIERARCHY | Some h \<Rightarrow> h);
          feature_class_1 = fst (snd (val record_1));
          feature_class_2 = fst (snd (val record_2))
      in if val record_2 = NOT_FOUND then Inr record_1
         else if val record_1 = NOT_FOUND then Inr record_2
         else (case getitem hierarchy feature_class_1 of Inl e \<Rightarrow> Inl e
           | Inr rank_1 \<Rightarrow>
          (case getitem hierarchy feature_class_2 of Inl e \<Rightarrow> Inl e
           | Inr rank_2 \<Rightarrow>
             if rank_1 = rank_2
             then Inr (if population_or_0 (val record_1) < population_or_0 (val record_2)
                       then record_2 else record_1)
             else Inr (if rank_2 < rank_1 then record_2 else record_1))))"

definition relevance_choice ::
  "RecordT \<Rightarrow> RecordT \<Rightarrow> (string \<rightharpoonup> int) option \<Rightarrow> error + RecordT" where
  \<comment> \<open>the comparator on tuple values\<close>
  "relevance_choice record_1 record_2 hierarchy =
     relevance_choice_ref (\<lambda>r. r) record_1 record_2 hierarchy"

section \<open>The lookup store (base.py, GeoNameBase)\<close>

text \<open>
  The shelf is a persistent dictionary from keys to records: one record per key, by its
  type. \<open>search\<close> is the method \<open>GeoNameBase.search\<close>, with the shelf it reads as
  its first argument; \<open>sys.intern\<close> changes no value and is left out.
\<close>

type_synonym shelf = "string \<rightharpoonup> RecordT"




section \<open>The location normalizer (api.py)\<close>












section \<open>The source datasets and the build (base.py)\<close>

text \<open>
  A dataset is the list of its rows, as \<open>alter_data\<close> leaves them; a row is the tuple
  of the columns \<open>push_data\<close> reads. In \<open>Geonames.push_data\<close> the test
  \<open>relevance_choice(old_record, new_record) is new_record\<close> compares references: the
  record read from the shelf and the new tuple are two objects, named here by
  \<open>Old_record\<close> and \<open>New_record\<close>. The names of a row are a Python set, whose
  iteration order is not specified; the model takes them in the order of their first
  occurrence.
\<close>

datatype operand = Old_record | New_record

definition operand_val :: "RecordT \<Rightarrow> RecordT \<Rightarrow> operand \<Rightarrow> RecordT" where
  "operand_val old_record new_record r =
     (case r of Old_record \<Rightarrow> old_record | New_record \<Rightarrow> new_record)"

definition Geonames_push_name :: "shelf \<Rightarrow> RecordT \<Rightarrow> string \<Rightarrow> error + shelf" where
  \<comment> \<open>the body of the inner loop of \<open>Geonames.push_data\<close>\<close>
  "Geonames_push_name db new_record name =
     (case db name of
        Some old_record \<Rightarrow>
          (case relevance_choice_ref (operand_val old_record new_record)
                  Old_record New_record None of
             Inl e \<Rightarrow> Inl e
           | Inr chosen \<Rightarrow>
               if chosen = New_record then Inr (db(name \<mapsto> new_record)) else Inr db)
      | None \<Rightarrow> Inr (db(name \<mapsto> new_record)))"

fun Geonames_push_names :: "shelf \<Rightarrow> RecordT \<Rightarrow> string list \<Rightarrow> error + shelf" where
  "Geonames_push_names db new_record [] = Inr db"
| "Geonames_push_names db new_record (name # names) =
     (case Geonames_push_name db new_record name of
        Inl e \<Rightarrow> Inl e
      | Inr db \<Rightarrow> Geonames_push_names db new_record names)"

type_synonym GeonamesRow = "string \<times> string \<times> string \<times> string \<times> string \<times> real"

definition Geonames_push_row :: "shelf \<Rightarrow> GeonamesRow \<Rightarrow> error + shelf" where
  \<comment> \<open>the body of the outer loop of \<open>Geonames.push_data\<close>, for one row\<close>
  "Geonames_push_row db row =
     (case row of (name, asciiname, alternatenames, feature_class, country_code, population) \<Rightarrow>
        let names = remdups (name # asciiname # split_acc '','' [] alternatenames);
            new_record = (Some country_code, Some feature_class, Some population)
        in Geonames_push_names db new_record
             (filter (\<lambda>n. n \<noteq> []) (map strip (map lower names))))"

fun Geonames_push_data :: "shelf \<Rightarrow> GeonamesRow list \<Rightarrow> error + shelf" where
  "Geonames_push_data db [] = Inr db"
| "Geonames_push_data db (row # rows) =
     (case Geonames_push_row db row of
        Inl e \<Rightarrow> Inl e
      | Inr db \<Rightarrow> Geonames_push_data db rows)"

type_synonym CountryAlias = "string \<times> string"

fun CountryAliases_push_data :: "shelf \<Rightarrow> CountryAlias list \<Rightarrow> shelf" where
  "CountryAliases_push_data db [] = db"
| "CountryAliases_push_data db ((iso3, Alias) # rows) =
     CountryAliases_push_data (db(lower Alias \<mapsto> (Some iso3, Some FeatureClass_C, None))) rows"

type_synonym CountryCodesRow = "string \<times> string"

fun CountryCodes_push_data :: "shelf \<Rightarrow> CountryCodesRow list \<Rightarrow> shelf" where
  "CountryCodes_push_data db [] = db"
| "CountryCodes_push_data db ((alpha2, alpha3) # rows) =
     CountryCodes_push_data (db(upper alpha2 \<mapsto> (Some alpha3, Some FeatureClass_C, None))) rows"

text \<open>
  \<open>GeoNameBase.build\<close> hands every source to a thread pool and then reads the results
  of the workers in the order of the sources (\<open>set(it)\<close>). Reading the result of a
  worker that raised raises its exception in \<open>build\<close>. How the threads interleave on
  the shelf is not modelled: \<open>push\<close> gives, for each source, how its worker ended in
  the run considered.
\<close>

fun results :: "(error + unit) list \<Rightarrow> error + unit" where
  \<comment> \<open>\<open>set(it)\<close>: the full iteration over the workers' results\<close>
  "results [] = Inr ()"
| "results (Inl e # rs) = Inl e"
| "results (Inr u # rs) = results rs"

definition build :: "'s list \<Rightarrow> ('s \<Rightarrow> error + unit) \<Rightarrow> error + unit" where
  "build sources push =
     (if sources = [] then Inl ValueError else results (map push sources))"

section \<open>Notions used in the statements\<close>

definition rank :: "RecordT \<Rightarrow> int option" where
  \<comment> \<open>the rank of a record's feature class in the default table, if it has one\<close>
  "rank record = (case fst (snd record) of None \<Rightarrow> None | Some c \<Rightarrow> RELEVANCE_HIERARCHY c)"

fun fold_relevance_choice :: "RecordT \<Rightarrow> RecordT list \<Rightarrow> error + RecordT" where
  \<comment> \<open>folding the comparator over candidate records from a running result, as the
      normalizer does with \<open>result = relevance_choice(result, found)\<close>\<close>
  "fold_relevance_choice result [] = Inr result"
| "fold_relevance_choice result (found # rest) =
     (case relevance_choice result found None of
        Inl e \<Rightarrow> Inl e
      | Inr result \<Rightarrow> fold_relevance_choice result rest)"

definition at_least_as_relevant :: "RecordT \<Rightarrow> RecordT \<Rightarrow> bool" where
  \<comment> \<open>\<open>a\<close> has a smaller rank than \<open>b\<close>, or the same rank and no smaller population\<close>
  "at_least_as_relevant a b =
     (case (rank a, rank b) of
        (Some ra, Some rb) \<Rightarrow> ra < rb \<or> (ra = rb \<and> population_or_0 b \<le> population_or_0 a)
      | _ \<Rightarrow> False)"



definition scenario_db :: shelf where
  \<comment> \<open>a small store: a place, two country aliases, a place whose country code is in
      no code table, and the code table entry of \<open>US\<close>\<close>
  "scenario_db =
     [''springfield'' \<mapsto> (Some ''US'', Some ''P'', Some 5000),
      ''america'' \<mapsto> (Some ''USA'', Some ''C'', None),
      ''usa'' \<mapsto> (Some ''USA'', Some ''C'', None),
      ''atlantis'' \<mapsto> (Some ''ZZ'', Some ''P'', Some 0),
      ''US'' \<mapsto> (Some ''USA'', Some ''C'', None)]"










definition one_worker_fails :: "nat \<Rightarrow> error + unit" where
  \<comment> \<open>how the workers of three sources 0, 1 and 2 end in a run where the one of
      source 1 raises\<close>
  "one_worker_fails s = (if s = 1 then Inl AttributeError else Inr ())"

section \<open>Properties of the relevance comparator\<close>

lemma getitem_rank:
  "getitem RELEVANCE_HIERARCHY (fst (snd r)) = (case rank r of None \<Rightarrow> Inl KeyError | Some n \<Rightarrow> Inr n)"
  by (simp add: getitem_def rank_def split: option.splits)

lemma rank_NOT_FOUND: "rank NOT_FOUND = None"
  by (simp add: rank_def NOT_FOUND_def)

lemma ranked_not_NOT_FOUND: "rank r = Some n \<Longrightarrow> r \<noteq> NOT_FOUND"
  using rank_NOT_FOUND by auto

lemma relevance_choice_ref_second_NOT_FOUND:
  "val b = NOT_FOUND \<Longrightarrow> relevance_choice_ref val a b h = Inr a"
  by (simp add: relevance_choice_ref_def)

lemma relevance_choice_ref_first_NOT_FOUND:
  "val a = NOT_FOUND \<Longrightarrow> val b \<noteq> NOT_FOUND \<Longrightarrow> relevance_choice_ref val a b h = Inr b"
  by (simp add: relevance_choice_ref_def)

lemma relevance_choice_ref_ranked:
  "rank (val a) = Some ra \<Longrightarrow> rank (val b) = Some rb \<Longrightarrow>
   relevance_choice_ref val a b None =
     Inr (if ra = rb then (if population_or_0 (val a) < population_or_0 (val b) then b else a)
          else if rb < ra then b else a)"
  using ranked_not_NOT_FOUND[of "val a" ra] ranked_not_NOT_FOUND[of "val b" rb]
  by (simp add: relevance_choice_ref_def getitem_rank)

lemma relevance_choice_ref_unranked:
  "val a \<noteq> NOT_FOUND \<Longrightarrow> val b \<noteq> NOT_FOUND \<Longrightarrow> rank (val a) = None \<or> rank (val b) = None \<Longrightarrow>
   relevance_choice_ref val a b None = Inl KeyError"
  by (auto simp add: relevance_choice_ref_def getitem_rank split: option.splits)

lemmas record_eval =
  rank_def RELEVANCE_HIERARCHY_def FeatureClass_C_def NOT_FOUND_def population_or_0_def

text \<open>
  C1. \<open>relevance_choice(a, b)\<close> returns \<open>a\<close> if \<open>b\<close> is \<open>NOT_FOUND\<close> and \<open>b\<close> if
  \<open>a\<close> is \<open>NOT_FOUND\<close> (so the first argument when both are). Otherwise, for records
  whose feature classes have the ranks \<open>ra\<close> and \<open>rb\<close>: with equal ranks it returns the
  record of greater population, a missing population counting as 0, and the first
  operand when the populations are equal; with different ranks it returns the record of
  smaller rank, whatever the populations.
\<close>

theorem relevance_choice_rules:
  "(b = NOT_FOUND \<longrightarrow> relevance_choice a b None = Inr a) \<and>
   (a = NOT_FOUND \<longrightarrow> relevance_choice a b None = Inr b) \<and>
   (rank a = Some ra \<and> rank b = Some rb \<longrightarrow>
      (ra = rb \<and> population_or_0 a < population_or_0 b \<longrightarrow> relevance_choice a b None = Inr b) \<and>
      (ra = rb \<and> population_or_0 b \<le> population_or_0 a \<longrightarrow> relevance_choice a b None = Inr a) \<and>
      (ra < rb \<longrightarrow> relevance_choice a b None = Inr a) \<and>
      (rb < ra \<longrightarrow> relevance_choice a b None = Inr b))"
proof (intro conjI impI)
  assume "b = NOT_FOUND"
  then show "relevance_choice a b None = Inr a"
    by (simp add: relevance_choice_def relevance_choice_ref_second_NOT_FOUND)
next
  assume a: "a = NOT_FOUND"
  show "relevance_choice a b None = Inr b"
  proof (cases "b = NOT_FOUND")
    case True
    with a show ?thesis
      by (simp add: relevance_choice_def relevance_choice_ref_second_NOT_FOUND)
  next
    case False
    with a show ?thesis
      by (simp add: relevance_choice_def relevance_choice_ref_first_NOT_FOUND)
  qed
next
  assume "rank a = Some ra \<and> rank b = Some rb" "ra = rb \<and> population_or_0 a < population_or_0 b"
  then show "relevance_choice a b None = Inr b"
    by (simp add: relevance_choice_def relevance_choice_ref_ranked[where val="\<lambda>r. r"])
next
  assume "rank a = Some ra \<and> rank b = Some rb" "ra = rb \<and> population_or_0 b \<le> population_or_0 a"
  then show "relevance_choice a b None = Inr a"
    by (simp add: relevance_choice_def relevance_choice_ref_ranked[where val="\<lambda>r. r"])
next
  assume "rank a = Some ra \<and> rank b = Some rb" "ra < rb"
  then show "relevance_choice a b None = Inr a"
    by (simp add: relevance_choice_def relevance_choice_ref_ranked[where val="\<lambda>r. r"])
next
  assume "rank a = Some ra \<and> rank b = Some rb" "rb < ra"
  then show "relevance_choice a b None = Inr b"
    by (simp add: relevance_choice_def relevance_choice_ref_ranked[where val="\<lambda>r. r"])
qed

theorem relevance_choice_rules_witness:
  "relevance_choice (Some ''US'', Some ''P'', Some 5000) NOT_FOUND None = Inr (Some ''US'', Some ''P'', Some 5000) \<and>
   relevance_choice NOT_FOUND (Some ''US'', Some ''P'', Some 5000) None = Inr (Some ''US'', Some ''P'', Some 5000) \<and>
   relevance_choice NOT_FOUND NOT_FOUND None = Inr NOT_FOUND \<and>
   relevance_choice (Some ''US'', Some ''P'', Some 5000) (Some ''CA'', Some ''A'', Some 7000) None
      = Inr (Some ''CA'', Some ''A'', Some 7000) \<and>
   relevance_choice (Some ''US'', Some ''P'', None) (Some ''CA'', Some ''A'', Some 0) None
      = Inr (Some ''US'', Some ''P'', None) \<and>
   relevance_choice (Some ''USA'', Some ''C'', None) (Some ''US'', Some ''P'', Some 5000) None
      = Inr (Some ''USA'', Some ''C'', None) \<and>
   relevance_choice (Some ''US'', Some ''P'', Some 5000) (Some ''USA'', Some ''C'', None) None
      = Inr (Some ''USA'', Some ''C'', None)"
  using relevance_choice_rules[of NOT_FOUND "(Some ''US'', Some ''P'', Some 5000)" 0 0]
    relevance_choice_rules[of "(Some ''US'', Some ''P'', Some 5000)" NOT_FOUND 0 0]
    relevance_choice_rules[of NOT_FOUND NOT_FOUND 0 0]
    relevance_choice_rules[of "(Some ''CA'', Some ''A'', Some 7000)" "(Some ''US'', Some ''P'', Some 5000)" 1 1]
    relevance_choice_rules[of "(Some ''CA'', Some ''A'', Some 0)" "(Some ''US'', Some ''P'', None)" 1 1]
    relevance_choice_rules[of "(Some ''US'', Some ''P'', Some 5000)" "(Some ''USA'', Some ''C'', None)" 0 1]
    relevance_choice_rules[of "(Some ''USA'', Some ''C'', None)" "(Some ''US'', Some ''P'', Some 5000)" 1 0]
  by (simp add: record_eval)

text \<open>
  C8. For two records whose feature classes are in the rank table (such a record is
  never \<open>NOT_FOUND\<close>), \<open>relevance_choice(A, B)\<close> and \<open>relevance_choice(B, A)\<close> are
  equal unless the ranks are equal and the populations, a missing one counting as 0,
  are equal too; in that case each call returns its own first operand.
\<close>

theorem relevance_choice_commutes:
  assumes "rank a = Some ra" and "rank b = Some rb"
  shows "(\<not> (ra = rb \<and> population_or_0 a = population_or_0 b) \<longrightarrow>
            relevance_choice a b None = relevance_choice b a None) \<and>
         (ra = rb \<and> population_or_0 a = population_or_0 b \<longrightarrow>
            relevance_choice a b None = Inr a \<and> relevance_choice b a None = Inr b)"
  using assms
  by (auto simp add: relevance_choice_def relevance_choice_ref_ranked[where val="\<lambda>r. r"])

theorem relevance_choice_commutes_witness:
  "relevance_choice (Some ''US'', Some ''P'', Some 5000) (Some ''USA'', Some ''C'', None) None
     = relevance_choice (Some ''USA'', Some ''C'', None) (Some ''US'', Some ''P'', Some 5000) None \<and>
   relevance_choice (Some ''US'', Some ''A'', Some 5) (Some ''CA'', Some ''P'', Some 5) None
     = Inr (Some ''US'', Some ''A'', Some 5) \<and>
   relevance_choice (Some ''CA'', Some ''P'', Some 5) (Some ''US'', Some ''A'', Some 5) None
     = Inr (Some ''CA'', Some ''P'', Some 5)"
  using relevance_choice_commutes[of "(Some ''US'', Some ''P'', Some 5000)" 1 "(Some ''USA'', Some ''C'', None)" 0]
    relevance_choice_commutes[of "(Some ''US'', Some ''A'', Some 5)" 1 "(Some ''CA'', Some ''P'', Some 5)" 1]
  by (simp add: record_eval)

lemma relevance_choice_ref_total:
  assumes "val a \<noteq> NOT_FOUND \<and> val b \<noteq> NOT_FOUND \<longrightarrow> rank (val a) \<noteq> None \<and> rank (val b) \<noteq> None"
  shows "relevance_choice_ref val a b None = Inr a \<or> relevance_choice_ref val a b None = Inr b"
proof (cases "val b = NOT_FOUND")
  case True
  then show ?thesis by (simp add: relevance_choice_ref_second_NOT_FOUND)
next
  case b: False
  show ?thesis
  proof (cases "val a = NOT_FOUND")
    case True
    with b show ?thesis by (simp add: relevance_choice_ref_first_NOT_FOUND)
  next
    case False
    with b assms obtain ra rb where "rank (val a) = Some ra" "rank (val b) = Some rb"
      by auto
    then show ?thesis by (simp add: relevance_choice_ref_ranked)
  qed
qed

text \<open>
  C10. \<open>relevance_choice\<close> returns one of the two references it was given, never a new
  record: for references \<open>a\<close> and \<open>b\<close> of any type, read through \<open>val\<close>, with ranked
  feature classes when neither record is \<open>NOT_FOUND\<close>, the call returns \<open>a\<close> or
  returns \<open>b\<close>. \<open>Geonames.push_data\<close> calls it on the references \<open>Old_record\<close> and
  \<open>New_record\<close> of the stored and the new tuple, so its test \<open>is new_record\<close> has a
  definite answer, also when the two tuples are equal: either the call returns the new
  record and the key is overwritten, or it returns the stored one and the shelf is left
  as it is.
\<close>

theorem relevance_choice_returns_operand:
  "((val a \<noteq> NOT_FOUND \<and> val b \<noteq> NOT_FOUND \<longrightarrow> rank (val a) \<noteq> None \<and> rank (val b) \<noteq> None) \<longrightarrow>
      relevance_choice_ref val a b None = Inr a \<or> relevance_choice_ref val a b None = Inr b) \<and>
   (db name = Some old_record \<and>
    (old_record \<noteq> NOT_FOUND \<and> new_record \<noteq> NOT_FOUND \<longrightarrow>
       rank old_record \<noteq> None \<and> rank new_record \<noteq> None) \<longrightarrow>
      (relevance_choice_ref (operand_val old_record new_record) Old_record New_record None
         = Inr New_record \<and>
       Geonames_push_name db new_record name = Inr (db(name \<mapsto> new_record))) \<or>
      (relevance_choice_ref (operand_val old_record new_record) Old_record New_record None
         = Inr Old_record \<and>
       Geonames_push_name db new_record name = Inr db))"
proof (intro conjI impI)
  assume "val a \<noteq> NOT_FOUND \<and> val b \<noteq> NOT_FOUND \<longrightarrow> rank (val a) \<noteq> None \<and> rank (val b) \<noteq> None"
  then show "relevance_choice_ref val a b None = Inr a \<or> relevance_choice_ref val a b None = Inr b"
    by (rule relevance_choice_ref_total)
next
  let ?val = "operand_val old_record new_record"
  assume a: "db name = Some old_record \<and>
    (old_record \<noteq> NOT_FOUND \<and> new_record \<noteq> NOT_FOUND \<longrightarrow>
       rank old_record \<noteq> None \<and> rank new_record \<noteq> None)"
  then have "?val Old_record \<noteq> NOT_FOUND \<and> ?val New_record \<noteq> NOT_FOUND \<longrightarrow>
      rank (?val Old_record) \<noteq> None \<and> rank (?val New_record) \<noteq> None"
    by (simp add: operand_val_def)
  then have "relevance_choice_ref ?val Old_record New_record None = Inr Old_record \<or>
      relevance_choice_ref ?val Old_record New_record None = Inr New_record"
    by (rule relevance_choice_ref_total)
  with a show "(relevance_choice_ref ?val Old_record New_record None = Inr New_record \<and>
       Geonames_push_name db new_record name = Inr (db(name \<mapsto> new_record))) \<or>
      (relevance_choice_ref ?val Old_record New_record None = Inr Old_record \<and>
       Geonames_push_name db new_record name = Inr db)"
    by (auto simp add: Geonames_push_name_def)
qed

theorem relevance_choice_returns_operand_witness:
  "relevance_choice_ref (\<lambda>n. if n = (0::nat) then NOT_FOUND else (Some ''US'', Some ''P'', Some 5))
      0 1 None = Inr 1 \<and>
   relevance_choice_ref (operand_val (Some ''US'', Some ''P'', Some 5000) (Some ''US'', Some ''P'', Some 5000))
      Old_record New_record None = Inr Old_record \<and>
   Geonames_push_name scenario_db (Some ''US'', Some ''P'', Some 5000) ''springfield'' = Inr scenario_db"
proof -
  let ?val = "\<lambda>n. if n = (0::nat) then NOT_FOUND else (Some ''US'', Some ''P'', Some 5)"
  have refs: "?val 0 \<noteq> NOT_FOUND \<and> ?val 1 \<noteq> NOT_FOUND \<longrightarrow> rank (?val 0) \<noteq> None \<and> rank (?val 1) \<noteq> None"
    by simp
  have first: "relevance_choice_ref ?val 0 1 None \<noteq> Inr 0"
    by (simp add: relevance_choice_ref_def NOT_FOUND_def)
  have stored: "scenario_db ''springfield'' = Some (Some ''US'', Some ''P'', Some 5000) \<and>
      ((Some ''US'', Some ''P'', Some 5000) \<noteq> NOT_FOUND \<and> (Some ''US'', Some ''P'', Some 5000) \<noteq> NOT_FOUND \<longrightarrow>
        rank (Some ''US'', Some ''P'', Some 5000) \<noteq> None \<and> rank (Some ''US'', Some ''P'', Some 5000) \<noteq> None)"
    by (simp add: scenario_db_def record_eval)
  have not_new: "relevance_choice_ref
      (operand_val (Some ''US'', Some ''P'', Some 5000) (Some ''US'', Some ''P'', Some 5000))
      Old_record New_record None \<noteq> Inr New_record"
    by (simp add: relevance_choice_ref_def operand_val_def getitem_def record_eval)
  from relevance_choice_returns_operand[where val = ?val and a = 0 and b = 1, THEN conjunct1]
    refs first
  have c1: "relevance_choice_ref ?val 0 1 None = Inr 1" by blast
  from relevance_choice_returns_operand[where db = scenario_db and name = "''springfield''"
      and old_record = "(Some ''US'', Some ''P'', Some 5000)"
      and new_record = "(Some ''US'', Some ''P'', Some 5000)", THEN conjunct2] stored not_new
  have c2: "relevance_choice_ref
      (operand_val (Some ''US'', Some ''P'', Some 5000) (Some ''US'', Some ''P'', Some 5000))
      Old_record New_record None = Inr Old_record \<and>
    Geonames_push_name scenario_db (Some ''US'', Some ''P'', Some 5000) ''springfield'' = Inr scenario_db"
    by blast
  from c1 c2 show ?thesis by blast
qed

section \<open>Properties of folding the comparator\<close>

lemma at_least_as_relevant_refl: "rank a \<noteq> None \<Longrightarrow> at_least_as_relevant a a"
  by (auto simp add: at_least_as_relevant_def)

lemma at_least_as_relevant_trans:
  "at_least_as_relevant a b \<Longrightarrow> at_least_as_relevant b c \<Longrightarrow> at_least_as_relevant a c"
  by (auto simp add: at_least_as_relevant_def split: option.splits)

lemma at_least_as_relevant_antisym:
  "at_least_as_relevant a b \<Longrightarrow> at_least_as_relevant b a \<Longrightarrow>
   rank a = rank b \<and> population_or_0 a = population_or_0 b"
  by (auto simp add: at_least_as_relevant_def split: option.splits)

lemma relevance_choice_ranked_cases:
  assumes "rank a \<noteq> None" and "rank b \<noteq> None"
  shows "\<exists>c. relevance_choice a b None = Inr c \<and> (c = a \<or> c = b) \<and>
             at_least_as_relevant c a \<and> at_least_as_relevant c b"
proof -
  from assms obtain ra rb where r: "rank a = Some ra" "rank b = Some rb" by auto
  then show ?thesis
    by (auto simp add: relevance_choice_def relevance_choice_ref_ranked[where val="\<lambda>r. r"]
        at_least_as_relevant_def)
qed

lemma fold_relevance_choice_ranked_seed:
  assumes "\<forall>x\<in>set xs. rank x \<noteq> None" and "rank s \<noteq> None"
  shows "\<exists>m. fold_relevance_choice s xs = Inr m \<and> m \<in> set (s # xs) \<and>
             (\<forall>x\<in>set (s # xs). at_least_as_relevant m x)"
  using assms
proof (induction xs arbitrary: s)
  case Nil
  then show ?case by (simp add: at_least_as_relevant_refl)
next
  case (Cons x xs)
  from Cons.prems have rx: "rank x \<noteq> None" and rest: "\<forall>y\<in>set xs. rank y \<noteq> None" by simp_all
  from relevance_choice_ranked_cases[OF Cons.prems(2) rx]
  obtain c where c: "relevance_choice s x None = Inr c" "c = s \<or> c = x"
    "at_least_as_relevant c s" "at_least_as_relevant c x" by blast
  from c(2) Cons.prems(2) rx have rc: "rank c \<noteq> None" by auto
  from Cons.IH[OF rest rc] obtain m where m: "fold_relevance_choice c xs = Inr m"
    "m \<in> set (c # xs)" "\<forall>y\<in>set (c # xs). at_least_as_relevant m y" by blast
  from m(3) have mc: "at_least_as_relevant m c" by simp
  have "fold_relevance_choice s (x # xs) = Inr m" using c(1) m(1) by simp
  moreover have "m \<in> set (s # x # xs)" using m(2) c(2) by auto
  moreover have "\<forall>y\<in>set (s # x # xs). at_least_as_relevant m y"
    using m(3) at_least_as_relevant_trans[OF mc c(3)] at_least_as_relevant_trans[OF mc c(4)]
    by simp
  ultimately show ?case by blast
qed

lemma fold_relevance_choice_NOT_FOUND_seed:
  assumes "\<forall>x\<in>set xs. rank x \<noteq> None" and "xs \<noteq> []"
  shows "\<exists>m. fold_relevance_choice NOT_FOUND xs = Inr m \<and> m \<in> set xs \<and>
             (\<forall>x\<in>set xs. at_least_as_relevant m x)"
proof -
  from assms(2) obtain x rest where xs: "xs = x # rest" by (cases xs) auto
  with assms(1) have rx: "rank x \<noteq> None" and rest: "\<forall>y\<in>set rest. rank y \<noteq> None" by simp_all
  from rx have "x \<noteq> NOT_FOUND" using rank_NOT_FOUND by auto
  then have "relevance_choice NOT_FOUND x None = Inr x"
    by (simp add: relevance_choice_def relevance_choice_ref_first_NOT_FOUND)
  then have "fold_relevance_choice NOT_FOUND xs = fold_relevance_choice x rest"
    by (simp add: xs)
  with fold_relevance_choice_ranked_seed[OF rest rx] show ?thesis by (simp add: xs)
qed

text \<open>
  C9, as amended. Folding \<open>relevance_choice\<close> from \<open>NOT_FOUND\<close> over candidate
  records with ranked feature classes never fails, and two lists of the same set of
  candidates (so every permutation of it) give final records of the same rank and the
  same population, a missing population counting as 0. They give the same record when
  no two different candidates have both the same rank and the same population. With
  such a tie the record met first is kept, so the order of the candidates decides.
\<close>

theorem fold_relevance_choice_permutation:
  assumes "set xs = set ys" and "\<forall>x\<in>set xs. rank x \<noteq> None"
  shows "\<exists>r r'. fold_relevance_choice NOT_FOUND xs = Inr r \<and>
                 fold_relevance_choice NOT_FOUND ys = Inr r' \<and>
                 rank r = rank r' \<and> population_or_0 r = population_or_0 r' \<and>
                 (inj_on (\<lambda>x. (rank x, population_or_0 x)) (set xs) \<longrightarrow> r = r')"
proof (cases "xs = []")
  case True
  with assms(1) have "ys = []" by simp
  with True show ?thesis by simp
next
  case False
  with assms(1) have ys: "ys \<noteq> []" by auto
  from assms have rys: "\<forall>x\<in>set ys. rank x \<noteq> None" by simp
  from fold_relevance_choice_NOT_FOUND_seed[OF assms(2) False]
  obtain m where m: "fold_relevance_choice NOT_FOUND xs = Inr m" "m \<in> set xs"
    "\<forall>x\<in>set xs. at_least_as_relevant m x" by blast
  from fold_relevance_choice_NOT_FOUND_seed[OF rys ys]
  obtain m' where m': "fold_relevance_choice NOT_FOUND ys = Inr m'" "m' \<in> set ys"
    "\<forall>x\<in>set ys. at_least_as_relevant m' x" by blast
  from m m' assms(1) have "at_least_as_relevant m m'" "at_least_as_relevant m' m" by auto
  then have eq: "rank m = rank m'" "population_or_0 m = population_or_0 m'"
    using at_least_as_relevant_antisym by blast+
  have "inj_on (\<lambda>x. (rank x, population_or_0 x)) (set xs) \<longrightarrow> m = m'"
    using eq m(2) m'(2) assms(1) by (auto dest: inj_onD)
  with m(1) m'(1) eq show ?thesis by blast
qed

theorem fold_relevance_choice_permutation_witness:
  "fold_relevance_choice NOT_FOUND
     [(Some ''US'', Some ''P'', Some 5000), (Some ''USA'', Some ''C'', None)] =
   fold_relevance_choice NOT_FOUND
     [(Some ''USA'', Some ''C'', None), (Some ''US'', Some ''P'', Some 5000)]"
proof -
  let ?xs = "[(Some ''US'', Some ''P'', Some 5000), (Some ''USA'', Some ''C'', None)] :: RecordT list"
  let ?ys = "[(Some ''USA'', Some ''C'', None), (Some ''US'', Some ''P'', Some 5000)] :: RecordT list"
  have same: "set ?xs = set ?ys" by auto
  have ranked: "\<forall>x\<in>set ?xs. rank x \<noteq> None" by (simp add: record_eval)
  have no_tie: "inj_on (\<lambda>x. (rank x, population_or_0 x)) (set ?xs)" by (simp add: record_eval)
  from fold_relevance_choice_permutation[OF same ranked] no_tie show ?thesis by auto
qed

theorem fold_relevance_choice_order_counterexample:
  "rank (Some ''US'', Some ''A'', Some 5) = Some 1 \<and>
   rank (Some ''CA'', Some ''P'', Some 5) = Some 1 \<and>
   fold_relevance_choice NOT_FOUND [(Some ''US'', Some ''A'', Some 5), (Some ''CA'', Some ''P'', Some 5)]
     = Inr (Some ''US'', Some ''A'', Some 5) \<and>
   fold_relevance_choice NOT_FOUND [(Some ''CA'', Some ''P'', Some 5), (Some ''US'', Some ''A'', Some 5)]
     = Inr (Some ''CA'', Some ''P'', Some 5)"
  by (simp add: relevance_choice_def relevance_choice_ref_def getitem_def record_eval)

section \<open>Properties of the lookup store\<close>







section \<open>Totality of the query path\<close>










section \<open>Blacklist tolerance and separator strategies\<close>















section \<open>Properties of the writes of the source datasets\<close>

lemma relevance_choice_ref_val:
  "relevance_choice (val a) (val b) h =
     (case relevance_choice_ref val a b h of Inl e \<Rightarrow> Inl e | Inr r \<Rightarrow> Inr (val r))"
  by (simp add: relevance_choice_def relevance_choice_ref_def Let_def split: sum.splits)

lemma CountryAliases_push_data_append:
  "CountryAliases_push_data db (rows @ rows') =
     CountryAliases_push_data (CountryAliases_push_data db rows) rows'"
  by (induction rows arbitrary: db) auto

lemma CountryCodes_push_data_append:
  "CountryCodes_push_data db (rows @ rows') =
     CountryCodes_push_data (CountryCodes_push_data db rows) rows'"
  by (induction rows arbitrary: db) auto

lemma country_record_beats_lower_ranks:
  assumes "rank old_record = Some r" and "0 < r"
  shows "relevance_choice old_record (Some iso3, Some FeatureClass_C, None) None =
           Inr (Some iso3, Some FeatureClass_C, None)"
proof -
  have "rank (Some iso3, Some FeatureClass_C, None) = Some 0"
    by (simp add: rank_def RELEVANCE_HIERARCHY_def)
  from relevance_choice_ref_ranked[where val = "\<lambda>r. r", OF assms(1) this] assms(2)
  show ?thesis by (simp add: relevance_choice_def)
qed

lemma Geonames_push_data_example:
  "(case Geonames_push_data Map.empty
           [(''Springfield'', ''Springfield'', ''Springfield Town, springfield '', ''P'', ''US'', 5000),
            (''Springfield'', '''', ''Springfield Town'', ''P'', ''AU'', 9000)] of
      Inl e \<Rightarrow> []
    | Inr db \<Rightarrow> [db ''springfield'', db ''springfield town'', db ''Springfield'', db '''']) =
   [Some (Some ''AU'', Some ''P'', Some 9000), Some (Some ''AU'', Some ''P'', Some 9000), None, None]"
  by code_simp

text \<open>
  C2, as amended. The shelf holds at most one record per key (it is a map). A place row
  writes a key that is absent; on a key that is present it calls the comparator on the
  stored record and the new one and writes the new record only when the comparator
  returns the new record itself, else leaves the shelf as it is (and a KeyError of the
  comparator ends the push). Country-alias rows and country-code rows do not call the
  comparator: each row writes its record, whatever the shelf holds under the key, so
  after a push the key of the last row holds the record of that row. A country record
  has rank 0, so this is the comparator's choice whenever the stored record has a
  greater rank.
\<close>

theorem push_data_collisions:
  "(db name = None \<longrightarrow>
      Geonames_push_name db new_record name = Inr (db(name \<mapsto> new_record))) \<and>
   (db name = Some old_record \<and>
    relevance_choice_ref (operand_val old_record new_record) Old_record New_record None
      = Inr New_record \<longrightarrow>
      relevance_choice old_record new_record None = Inr new_record \<and>
      Geonames_push_name db new_record name = Inr (db(name \<mapsto> new_record))) \<and>
   (db name = Some old_record \<and>
    relevance_choice_ref (operand_val old_record new_record) Old_record New_record None
      = Inr Old_record \<longrightarrow>
      relevance_choice old_record new_record None = Inr old_record \<and>
      Geonames_push_name db new_record name = Inr db) \<and>
   (db name = Some old_record \<and> relevance_choice old_record new_record None = Inl e \<longrightarrow>
      Geonames_push_name db new_record name = Inl e) \<and>
   CountryAliases_push_data db (aliases @ [(iso_three, Alias)]) (lower Alias)
     = Some (Some iso_three, Some FeatureClass_C, None) \<and>
   CountryCodes_push_data db (codes @ [(alpha_two, alpha_three)]) (upper alpha_two)
     = Some (Some alpha_three, Some FeatureClass_C, None) \<and>
   (rank old_record = Some r \<and> 0 < r \<longrightarrow>
      relevance_choice old_record (Some iso_three, Some FeatureClass_C, None) None
        = Inr (Some iso_three, Some FeatureClass_C, None))"
proof (intro conjI impI)
  assume "db name = None"
  then show "Geonames_push_name db new_record name = Inr (db(name \<mapsto> new_record))"
    by (simp add: Geonames_push_name_def)
next
  assume a: "db name = Some old_record \<and>
    relevance_choice_ref (operand_val old_record new_record) Old_record New_record None
      = Inr New_record"
  then show "Geonames_push_name db new_record name = Inr (db(name \<mapsto> new_record))"
    by (simp add: Geonames_push_name_def)
  from a relevance_choice_ref_val[of "operand_val old_record new_record" Old_record New_record None]
  show "relevance_choice old_record new_record None = Inr new_record"
    by (simp add: operand_val_def)
next
  assume a: "db name = Some old_record \<and>
    relevance_choice_ref (operand_val old_record new_record) Old_record New_record None
      = Inr Old_record"
  then show "Geonames_push_name db new_record name = Inr db"
    by (simp add: Geonames_push_name_def)
  from a relevance_choice_ref_val[of "operand_val old_record new_record" Old_record New_record None]
  show "relevance_choice old_record new_record None = Inr old_record"
    by (simp add: operand_val_def)
next
  assume a: "db name = Some old_record \<and> relevance_choice old_record new_record None = Inl e"
  with relevance_choice_ref_val[of "operand_val old_record new_record" Old_record New_record None]
  have "relevance_choice_ref (operand_val old_record new_record) Old_record New_record None = Inl e"
    by (simp add: operand_val_def split: sum.splits)
  with a show "Geonames_push_name db new_record name = Inl e"
    by (simp add: Geonames_push_name_def)
next
  show "CountryAliases_push_data db (aliases @ [(iso_three, Alias)]) (lower Alias)
     = Some (Some iso_three, Some FeatureClass_C, None)"
    by (simp add: CountryAliases_push_data_append)
next
  show "CountryCodes_push_data db (codes @ [(alpha_two, alpha_three)]) (upper alpha_two)
     = Some (Some alpha_three, Some FeatureClass_C, None)"
    by (simp add: CountryCodes_push_data_append)
next
  assume "rank old_record = Some r \<and> 0 < r"
  then show "relevance_choice old_record (Some iso_three, Some FeatureClass_C, None) None
        = Inr (Some iso_three, Some FeatureClass_C, None)"
    using country_record_beats_lower_ranks[of old_record r iso_three] by blast
qed

theorem push_data_collisions_witness:
  "Geonames_push_name scenario_db (Some ''CA'', Some ''P'', Some 10) ''toronto'' =
     Inr (scenario_db(''toronto'' \<mapsto> (Some ''CA'', Some ''P'', Some 10))) \<and>
   Geonames_push_name scenario_db (Some ''AU'', Some ''P'', Some 9000) ''springfield'' =
     Inr (scenario_db(''springfield'' \<mapsto> (Some ''AU'', Some ''P'', Some 9000))) \<and>
   Geonames_push_name scenario_db (Some ''AU'', Some ''P'', Some 5000) ''springfield'' =
     Inr scenario_db \<and>
   Geonames_push_name (scenario_db(''x'' \<mapsto> (Some ''XX'', Some ''Q'', None)))
     (Some ''AU'', Some ''P'', Some 1) ''x'' = Inl KeyError \<and>
   relevance_choice (Some ''US'', Some ''P'', Some 5000)
     (Some ''USA'', Some FeatureClass_C, None) None = Inr (Some ''USA'', Some FeatureClass_C, None) \<and>
   CountryAliases_push_data scenario_db [(''GEO'', ''Georgia''), (''USA'', ''Georgia'')]
     (lower ''Georgia'') = Some (Some ''USA'', Some FeatureClass_C, None)"
proof -
  have absent: "scenario_db ''toronto'' = None" by code_simp
  have newer: "scenario_db ''springfield'' = Some (Some ''US'', Some ''P'', Some 5000) \<and>
     relevance_choice_ref (operand_val (Some ''US'', Some ''P'', Some 5000) (Some ''AU'', Some ''P'', Some 9000))
       Old_record New_record None = Inr New_record"
    by code_simp
  have tie: "scenario_db ''springfield'' = Some (Some ''US'', Some ''P'', Some 5000) \<and>
     relevance_choice_ref (operand_val (Some ''US'', Some ''P'', Some 5000) (Some ''AU'', Some ''P'', Some 5000))
       Old_record New_record None = Inr Old_record"
    by code_simp
  have unranked: "(scenario_db(''x'' \<mapsto> (Some ''XX'', Some ''Q'', None))) ''x'' = Some (Some ''XX'', Some ''Q'', None) \<and>
     relevance_choice (Some ''XX'', Some ''Q'', None) (Some ''AU'', Some ''P'', Some 1) None = Inl KeyError"
    by code_simp
  from push_data_collisions[where db = scenario_db and name = "''toronto''"
      and new_record = "(Some ''CA'', Some ''P'', Some 10)"] absent
  have c1: "Geonames_push_name scenario_db (Some ''CA'', Some ''P'', Some 10) ''toronto'' =
     Inr (scenario_db(''toronto'' \<mapsto> (Some ''CA'', Some ''P'', Some 10)))" by blast
  from push_data_collisions[where db = scenario_db and name = "''springfield''"
      and old_record = "(Some ''US'', Some ''P'', Some 5000)"
      and new_record = "(Some ''AU'', Some ''P'', Some 9000)"] newer
  have c2: "Geonames_push_name scenario_db (Some ''AU'', Some ''P'', Some 9000) ''springfield'' =
     Inr (scenario_db(''springfield'' \<mapsto> (Some ''AU'', Some ''P'', Some 9000)))" by blast
  from push_data_collisions[where db = scenario_db and name = "''springfield''"
      and old_record = "(Some ''US'', Some ''P'', Some 5000)"
      and new_record = "(Some ''AU'', Some ''P'', Some 5000)"] tie
  have c3: "Geonames_push_name scenario_db (Some ''AU'', Some ''P'', Some 5000) ''springfield'' =
     Inr scenario_db" by blast
  from push_data_collisions[where db = "scenario_db(''x'' \<mapsto> (Some ''XX'', Some ''Q'', None))"
      and name = "''x''" and old_record = "(Some ''XX'', Some ''Q'', None)"
      and new_record = "(Some ''AU'', Some ''P'', Some 1)" and e = KeyError] unranked
  have c4: "Geonames_push_name (scenario_db(''x'' \<mapsto> (Some ''XX'', Some ''Q'', None)))
     (Some ''AU'', Some ''P'', Some 1) ''x'' = Inl KeyError" by blast
  have place: "rank (Some ''US'', Some ''P'', Some 5000) = Some 1 \<and> (0::int) < 1"
    by (simp add: record_eval)
  from push_data_collisions[where old_record = "(Some ''US'', Some ''P'', Some 5000)" and r = 1
      and iso_three = "''USA''"] place
  have c5: "relevance_choice (Some ''US'', Some ''P'', Some 5000)
      (Some ''USA'', Some FeatureClass_C, None) None = Inr (Some ''USA'', Some FeatureClass_C, None)"
    by blast
  from push_data_collisions[where db = scenario_db and aliases = "[(''GEO'', ''Georgia'')]"
      and iso_three = "''USA''" and Alias = "''Georgia''"]
  have c6: "CountryAliases_push_data scenario_db [(''GEO'', ''Georgia''), (''USA'', ''Georgia'')]
      (lower ''Georgia'') = Some (Some ''USA'', Some FeatureClass_C, None)"
    by simp
  from c1 c2 c3 c4 c5 c6 show ?thesis by blast
qed

theorem country_rows_overwrite_counterexample:
  "relevance_choice (Some ''GEO'', Some ''C'', None) (Some ''USA'', Some ''C'', None) None
     = Inr (Some ''GEO'', Some ''C'', None) \<and>
   CountryAliases_push_data [''georgia'' \<mapsto> (Some ''GEO'', Some ''C'', None)]
     [(''USA'', ''Georgia'')] ''georgia'' = Some (Some ''USA'', Some ''C'', None) \<and>
   relevance_choice (Some ''GEO'', Some ''C'', None) (Some ''GGY'', Some ''C'', None) None
     = Inr (Some ''GEO'', Some ''C'', None) \<and>
   CountryCodes_push_data [''GE'' \<mapsto> (Some ''GEO'', Some ''C'', None)]
     [(''ge'', ''GGY'')] ''GE'' = Some (Some ''GGY'', Some ''C'', None)"
  by code_simp

section \<open>Properties of the build\<close>

lemma results_all_done:
  "\<forall>s\<in>set sources. push s = Inr () \<Longrightarrow> results (map push sources) = Inr ()"
  by (induction sources) simp_all

lemma results_first_failure:
  "\<forall>t\<in>set pre. push t = Inr () \<Longrightarrow> push s = Inl e \<Longrightarrow>
   results (map push (pre @ s # post)) = Inl e"
  by (induction pre) simp_all

text \<open>
  C6, as amended. \<open>build\<close> raises ValueError when it has no sources. With sources, it
  returns (nothing) when every worker ended well, and when a worker raised it raises the
  exception of the first source, in the order of the sources, whose worker did: a
  failure of one worker ends the build with that exception. There is no report of
  failed sources and no error of its own for the case that all fail.
\<close>

theorem build_raises_first_failure:
  "(sources = [] \<longrightarrow> build sources push = Inl ValueError) \<and>
   (sources \<noteq> [] \<and> (\<forall>s\<in>set sources. push s = Inr ()) \<longrightarrow> build sources push = Inr ()) \<and>
   (sources = pre @ s # post \<and> (\<forall>t\<in>set pre. push t = Inr ()) \<and> push s = Inl e \<longrightarrow>
      build sources push = Inl e)"
proof (intro conjI impI)
  assume "sources = []"
  then show "build sources push = Inl ValueError" by (simp add: build_def)
next
  assume "sources \<noteq> [] \<and> (\<forall>s\<in>set sources. push s = Inr ())"
  then show "build sources push = Inr ()"
    using results_all_done[of sources push] by (simp add: build_def)
next
  assume a: "sources = pre @ s # post \<and> (\<forall>t\<in>set pre. push t = Inr ()) \<and> push s = Inl e"
  then have "results (map push (pre @ s # post)) = Inl e"
    using results_first_failure[of pre push s e post] by blast
  with a show "build sources push = Inl e" by (simp add: build_def)
qed

theorem build_raises_first_failure_witness:
  "build ([] :: nat list) one_worker_fails = Inl ValueError \<and>
   build [0, 2] one_worker_fails = Inr () \<and>
   build [0, 1, 2] one_worker_fails = Inl AttributeError"
proof -
  have all_done: "[0, 2] \<noteq> ([] :: nat list) \<and> (\<forall>s\<in>set [0, 2]. one_worker_fails s = Inr ())"
    by (simp add: one_worker_fails_def)
  have one_fails: "[0, 1, 2] = [0] @ (1::nat) # [2] \<and> (\<forall>t\<in>set [0]. one_worker_fails t = Inr ()) \<and>
      one_worker_fails 1 = Inl AttributeError"
    by (simp add: one_worker_fails_def)
  from build_raises_first_failure[of "[] :: nat list" one_worker_fails]
  have c1: "build ([] :: nat list) one_worker_fails = Inl ValueError" by blast
  from build_raises_first_failure[of "[0, 2]" one_worker_fails] all_done
  have c2: "build [0, 2] one_worker_fails = Inr ()" by blast
  from build_raises_first_failure[of "[0, 1, 2]" one_worker_fails "[0]" 1 "[2]" AttributeError] one_fails
  have c3: "build [0, 1, 2] one_worker_fails = Inl AttributeError" by blast
  from c1 c2 c3 show ?thesis by blast
qed

theorem build_aborts_counterexample:
  "one_worker_fails 0 = Inr () \<and> one_worker_fails 1 = Inl AttributeError \<and> one_worker_fails 2 = Inr () \<and>
   build [0, 1, 2] one_worker_fails = Inl AttributeError"
  by (simp add: build_def one_worker_fails_def)

end
